theory Spec2Isabelle
  imports
    Main
    "HOL-Library.Sublist"
    "HOL-Library.Char_ord"
    "HOL-Library.List_Lexorder"
    "HOL-Library.Option_ord"
    "HOL-Library.Multiset"
begin

section \<open>Strings, truthiness and the regular expressions of the script\<close>

text \<open>
  A Python \<open>str\<close> is a \<^typ>\<open>string\<close>. The script folds case through
  \<open>re.IGNORECASE\<close>; on ASCII text, which is what firmware file names, board slugs and
  release tags are made of, that is the folding of \<open>A\<close>..\<open>Z\<close> to \<open>a\<close>..\<open>z\<close>.
\<close>

definition lower_char :: "char \<Rightarrow> char" where
  "lower_char c =
     (if CHR ''A'' \<le> c \<and> c \<le> CHR ''Z'' then char_of (of_char c + (32::nat)) else c)"

text \<open>Equality of two strings up to case: the meaning of "equals case-insensitively".\<close>

definition equals_ci :: "string \<Rightarrow> string \<Rightarrow> bool" where
  "equals_ci a b \<longleftrightarrow> map lower_char a = map lower_char b"

text \<open>\<open>if x:\<close> on an optional string: \<open>None\<close> and \<open>""\<close> are false.\<close>

definition truthy :: "string option \<Rightarrow> bool" where
  "truthy x = (case x of None \<Rightarrow> False | Some s \<Rightarrow> s \<noteq> [])"

text \<open>\<open>x or ""\<close> on an optional string.\<close>

definition or_empty :: "string option \<Rightarrow> string" where
  "or_empty x = (case x of None \<Rightarrow> [] | Some s \<Rightarrow> s)"

text \<open>\<open>s.lstrip(chars)\<close> removes every leading character that occurs in \<open>chars\<close>.\<close>

definition lstrip :: "string \<Rightarrow> string \<Rightarrow> string" where
  "lstrip chars s = dropWhile (\<lambda>c. c \<in> set chars) s"

text \<open>\<open>s.strip()\<close> removes leading and trailing (ASCII) white space.\<close>

definition is_space :: "char \<Rightarrow> bool" where
  "is_space c \<longleftrightarrow> c \<in> set [CHR 0x09, CHR 0x0A, CHR 0x0B, CHR 0x0C, CHR 0x0D,
                               CHR 0x1C, CHR 0x1D, CHR 0x1E, CHR 0x1F, CHR 0x20]"

definition strip :: "string \<Rightarrow> string" where
  "strip s = rev (dropWhile is_space (rev (dropWhile is_space s)))"

text \<open>\<open>sep.join(xs)\<close>.\<close>

fun join :: "string \<Rightarrow> string list \<Rightarrow> string" where
  "join sep [] = []"
| "join sep [x] = x"
| "join sep (x # y # ys) = x @ sep @ join sep (y # ys)"

text \<open>\<open>str(n)\<close> for an integer, as the f-strings print it.\<close>

fun str_nat :: "nat \<Rightarrow> string" where
  "str_nat n =
     (if n < 10 then [char_of (48 + n)] else str_nat (n div 10) @ [char_of (48 + n mod 10)])"

definition str_int :: "int \<Rightarrow> string" where
  "str_int i = (if i < 0 then CHR ''-'' # str_nat (nat (- i)) else str_nat (nat i))"

text \<open>
  The patterns the script compiles have the shape \<open>^ item ... item $\<close> under
  \<open>re.IGNORECASE\<close>, where an item is literal text (written out, or produced by
  \<open>re.escape\<close>) or \<open>.*\<close>. \<open>pattern.match(s)\<close> is \<open>re_match\<close>:
  \<^item> a literal matches its characters up to case;
  \<^item> \<open>.\<close> matches any character but a newline, and \<open>.*\<close> any number of them
    (Python backtracks over every length; the order it tries them in does not change
    whether the match succeeds);
  \<^item> \<open>$\<close> matches at the end of the string and also just before a newline that ends it.
\<close>

datatype re_item = Lit string | DotStar

fun match_literal :: "string \<Rightarrow> string \<Rightarrow> string option" where
  "match_literal [] s = Some s"
| "match_literal (c # cs) [] = None"
| "match_literal (c # cs) (d # ds) =
     (if lower_char c = lower_char d then match_literal cs ds else None)"

definition at_end :: "string \<Rightarrow> bool" where
  "at_end s \<longleftrightarrow> s = [] \<or> s = [CHR 0x0A]"

fun re_match :: "re_item list \<Rightarrow> string \<Rightarrow> bool" where
  "re_match [] s = at_end s"
| "re_match (Lit l # r) s =
     (case match_literal l s of None \<Rightarrow> False | Some t \<Rightarrow> re_match r t)"
| "re_match (DotStar # r) [] = re_match r []"
| "re_match (DotStar # r) (c # cs) =
     (re_match r (c # cs) \<or> (c \<noteq> CHR 0x0A \<and> re_match (DotStar # r) cs))"

section \<open>Errors, paths and the GitHub records\<close>

text \<open>
  Every \<open>raise SystemExit(message)\<close> of the script is one error value, named after the
  failure it reports; \<open>FetchError\<close> and \<open>NotFound\<close> are what \<open>http_json\<close> can raise,
  \<open>TypeError\<close> what comparing a missing sort key raises.
\<close>

datatype error =
    FetchError
  | NotFound
  | NoCandidates
  | InsufficientHistory
  | NoAssetForPlatform
  | NoImagesFound
  | TypeError

text \<open>
  A \<open>Path\<close> below the extraction directory is the list of its components; \<open>p.name\<close> is
  the last one. Paths compare component by component, strings character by character.
\<close>

type_synonym path = "string list"

definition name :: "path \<Rightarrow> string" where
  "name p = (if p = [] then [] else last p)"

text \<open>
  The JSON objects of the GitHub API, with the fields the script reads. A field read with
  \<open>.get(key, default)\<close> holds the default when the key is absent; a flag read for its
  truth value is a \<^typ>\<open>bool\<close>; the two time stamps may be absent.
\<close>

record asset =
  a_name :: string
  a_size :: int
  a_browser_download_url :: string

record release =
  r_tag_name :: "string option"
  r_prerelease :: bool
  r_draft :: bool
  r_created_at :: "string option"
  r_published_at :: "string option"
  r_assets :: "asset list"

text \<open>
  What \<open>http_json\<close> answers: for \<open>/releases/tags/<tag>\<close> and for
  \<open>/releases?per_page=100\<close>.
\<close>

record github =
  release_by_tag :: "string \<Rightarrow> error + release"
  releases_feed :: "error + release list"

section \<open>ReleaseCatalog: \<open>find_release\<close>\<close>

text \<open>
  \<open>xs.sort(key=f, reverse=True)\<close>: CPython reverses the list, sorts it stably in
  ascending order and reverses the result, which keeps equal keys in their original order.
\<close>

definition sort_reverse :: "('a \<Rightarrow> 'k::linorder) \<Rightarrow> 'a list \<Rightarrow> 'a list" where
  "sort_reverse f xs = rev (sort_key f (rev xs))"

text \<open>\<open>lambda r: r.get("created_at") or r.get("published_at")\<close>\<close>

definition release_key :: "release \<Rightarrow> string option" where
  "release_key r =
     (case r_created_at r of
        None \<Rightarrow> r_published_at r
      | Some s \<Rightarrow> if s \<noteq> [] then Some s else r_published_at r)"

definition find_release :: "github \<Rightarrow> bool \<Rightarrow> bool \<Rightarrow> string option \<Rightarrow> error + release" where
  "find_release gh previous alpha tag =
     (if truthy tag then release_by_tag gh (the tag)
      else case releases_feed gh of
        Inl e \<Rightarrow> Inl e
      | Inr releases \<Rightarrow>
          let candidates =
                (if alpha then filter (\<lambda>r. r_prerelease r \<and> \<not> r_draft r) releases
                 else filter (\<lambda>r. \<not> r_prerelease r \<and> \<not> r_draft r) releases)
          in if candidates = [] then Inl NoCandidates
             else if 2 \<le> length candidates \<and> (\<exists>r \<in> set candidates. release_key r = None)
               then Inl TypeError
             else
               let sorted_candidates = sort_reverse release_key candidates;
                   idx = (if previous then 1 else 0 :: nat)
               in if idx \<ge> length sorted_candidates then Inl InsufficientHistory
                  else Inr (sorted_candidates ! idx))"

section \<open>AssetSelector: \<open>pick_asset_for_platform\<close>\<close>

definition asset_pattern :: "string \<Rightarrow> re_item list" where
  "asset_pattern platform = [Lit (''firmware-'' @ platform @ ''-''), DotStar, Lit ''.zip'']"

definition pick_asset_for_platform :: "release \<Rightarrow> string \<Rightarrow> error + asset" where
  "pick_asset_for_platform rel platform =
     (let matches = filter (\<lambda>a. re_match (asset_pattern platform) (a_name a)) (r_assets rel)
      in if matches = [] then Inl NoAssetForPlatform
         else Inr (sort_reverse a_size matches ! 0))"

section \<open>ImageResolver: \<open>list_update_bins\<close> and \<open>resolve_board_image\<close>\<close>

text \<open>
  \<open>tree\<close> is what \<open>extract_dir.rglob\<close> walks over; the glob \<open>*-update.bin\<close> keeps the
  paths whose name ends in \<open>-update.bin\<close>.
\<close>

definition list_update_bins :: "path list \<Rightarrow> error + path list" where
  "list_update_bins tree =
     (let bins = sort (filter (\<lambda>p. suffix ''-update.bin'' (name p)) tree)
      in if bins = [] then Inl NoImagesFound else Inr bins)"

definition strict_pattern :: "string \<Rightarrow> string \<Rightarrow> re_item list" where
  "strict_pattern board version =
     [Lit (''firmware-'' @ board @ ''-'' @ version @ ''-update.bin'')]"

definition loose_pattern :: "string \<Rightarrow> re_item list" where
  "loose_pattern board = [Lit (''firmware-'' @ board @ ''-''), DotStar, Lit ''-update.bin'']"

text \<open>The first loop of \<open>resolve_board_image\<close>, guarded by \<open>if strict\<close>.\<close>

definition strict_phase :: "path list \<Rightarrow> string \<Rightarrow> string \<Rightarrow> path option" where
  "strict_phase images board version =
     (if version \<noteq> []
      then List.find (\<lambda>p. re_match (strict_pattern board version) (name p)) images
      else None)"

text \<open>The fallback of \<open>resolve_board_image\<close>.\<close>

definition loose_phase :: "path list \<Rightarrow> string \<Rightarrow> string \<Rightarrow> path option" where
  "loose_phase images board version =
     (let candidates = filter (\<lambda>p. re_match (loose_pattern board) (name p)) images
      in if length candidates = 1 then Some (candidates ! 0)
         else if length candidates > 1 then
           (if version \<noteq> [] then List.find (\<lambda>p. sublist version (name p)) candidates
            else None)
         else None)"

text \<open>
  \<open>tag_name\<close> is a string here, so \<open>tag_name or ""\<close> is \<open>tag_name\<close> itself; the
  caller turns a missing tag into \<open>""\<close>.
\<close>

definition resolve_board_image :: "path list \<Rightarrow> string \<Rightarrow> string \<Rightarrow> path option" where
  "resolve_board_image images board tag_name =
     (let version = lstrip ''v'' tag_name
      in case strict_phase images board version of
           Some p \<Rightarrow> Some p
         | None \<Rightarrow> loose_phase images board version)"

text \<open>
  The part of \<open>main\<close> that locates the images and applies \<open>--board\<close>: it yields the image
  list and the image chosen automatically, if any. The notice printed when the board gives no
  image is left out.
\<close>

definition main_locate_image ::
  "path list \<Rightarrow> string option \<Rightarrow> string option \<Rightarrow> error + (path list \<times> path option)" where
  "main_locate_image tree board tag_name =
     (case list_update_bins tree of
        Inl e \<Rightarrow> Inl e
      | Inr images \<Rightarrow>
          Inr (images,
               if truthy board
               then resolve_board_image images (strip (the board)) (or_empty tag_name)
               else None))"

section \<open>FlashOrchestrator: \<open>run\<close> and the two steps of \<open>main\<close>\<close>

text \<open>
  The world the steps act on: the lines printed so far and the commands handed to
  \<open>subprocess.run\<close> so far. The external process is a parameter: its return code may
  depend on the environment, on what ran before and on the command.
\<close>

record world =
  stdout :: "string list"
  stderr :: "string list"
  executed :: "string list list"

type_synonym environ = "string \<rightharpoonup> string"
type_synonym executor = "environ \<Rightarrow> string list list \<Rightarrow> string list \<Rightarrow> int"

definition run ::
  "executor \<Rightarrow> string list \<Rightarrow> environ \<Rightarrow> bool \<Rightarrow> bool \<Rightarrow> world \<Rightarrow> int \<times> world" where
  "run exec cmd env dry_run verbose w =
     (let w1 = (if verbose \<or> dry_run
                then w\<lparr>stdout := stdout w @ [''+ '' @ join '' '' cmd]\<rparr> else w)
      in if dry_run then (0, w1)
         else (exec env (executed w1) cmd, w1\<lparr>executed := executed w1 @ [cmd]\<rparr>))"

text \<open>
  \<open>Success\<close>: \<open>main\<close> returns (exit status 0). \<open>Failed n\<close>: \<open>sys.exit(n)\<close>.
\<close>

datatype outcome = Success | Failed int

definition prepare_cmd :: "string \<Rightarrow> string \<Rightarrow> string list" where
  "prepare_cmd device_update chosen_path = [device_update, ''-f'', chosen_path, ''--change-mode'']"

definition flash_cmd :: "string \<Rightarrow> string \<Rightarrow> string list" where
  "flash_cmd device_update chosen_path = [device_update, ''-f'', chosen_path]"

text \<open>
  "Step 2: actual flash" of \<open>main\<close>. The messages are recorded without the
  pictograph that leads them.
\<close>

definition main_flash_step ::
  "executor \<Rightarrow> environ \<Rightarrow> string \<Rightarrow> string \<Rightarrow> bool \<Rightarrow> bool \<Rightarrow> world \<Rightarrow> outcome \<times> world" where
  "main_flash_step exec env device_update chosen_path dry_run verbose w =
     (let w1 = w\<lparr>stdout := stdout w @ [''Step 2/2: Flashing firmware...'']\<rparr>;
          (rc2, w2) = run exec (flash_cmd device_update chosen_path) env dry_run verbose w1
      in if rc2 = 0
         then (Success, w2\<lparr>stdout := stdout w2 @ [''Flash completed successfully.'']\<rparr>)
         else (Failed rc2,
               w2\<lparr>stderr := stderr w2 @
                 [''Flash failed with exit code '' @ str_int rc2 @ ''. See the output above.'']\<rparr>))"

text \<open>"Optional Step 1: change mode" of \<open>main\<close>, followed by step 2.\<close>

definition main_steps ::
  "executor \<Rightarrow> environ \<Rightarrow> string \<Rightarrow> string \<Rightarrow> bool \<Rightarrow> bool \<Rightarrow> bool \<Rightarrow> world \<Rightarrow> outcome \<times> world"
  where
  "main_steps exec env device_update chosen_path change_mode dry_run verbose w =
     (if change_mode then
        (let w1 = w\<lparr>stdout := stdout w @ [''Step 1/2: Preparing flash (change mode)...'']\<rparr>;
             (rc1, w2) = run exec (prepare_cmd device_update chosen_path) env dry_run verbose w1
         in if rc1 \<noteq> 0
            then (Failed rc1,
                  w2\<lparr>stderr := stderr w2 @
                    [''change-mode step failed with exit code '' @ str_int rc1 @ ''. Aborting.'']\<rparr>)
            else main_flash_step exec env device_update chosen_path dry_run verbose w2)
      else
        (let w1 = (if verbose
                   then w\<lparr>stdout := stdout w @ [''Skipping change-mode step (not requested).'']\<rparr>
                   else w)
         in main_flash_step exec env device_update chosen_path dry_run verbose w1))"

section \<open>Sample data\<close>

text \<open>Releases as the feed lists them: two stable ones, an alpha and a draft.\<close>

definition rel_stable_old :: release where
  "rel_stable_old =
     \<lparr>r_tag_name = Some ''v2.6.11'', r_prerelease = False, r_draft = False,
      r_created_at = Some ''2025-05-20T10:00:00Z'',
      r_published_at = Some ''2025-05-21T08:00:00Z'', r_assets = []\<rparr>"

definition rel_stable_new :: release where
  "rel_stable_new =
     \<lparr>r_tag_name = Some ''v2.7.4'', r_prerelease = False, r_draft = False,
      r_created_at = Some ''2025-08-02T10:00:00Z'', r_published_at = None, r_assets = []\<rparr>"

definition rel_alpha :: release where
  "rel_alpha =
     \<lparr>r_tag_name = Some ''v2.7.11.ee68575'', r_prerelease = True, r_draft = False,
      r_created_at = Some ''2025-09-30T10:00:00Z'', r_published_at = None, r_assets = []\<rparr>"

definition rel_draft :: release where
  "rel_draft =
     \<lparr>r_tag_name = Some ''v2.8.0'', r_prerelease = False, r_draft = True,
      r_created_at = Some ''2025-10-01T10:00:00Z'', r_published_at = None, r_assets = []\<rparr>"

definition example_github :: github where
  "example_github =
     \<lparr>release_by_tag =
        (\<lambda>t. if t = ''v2.7.11.ee68575'' then Inr rel_alpha else Inl NotFound),
      releases_feed = Inr [rel_stable_old, rel_alpha, rel_draft, rel_stable_new]\<rparr>"

text \<open>A feed with one release in each channel.\<close>

definition single_github :: github where
  "single_github =
     \<lparr>release_by_tag = (\<lambda>t. Inl NotFound), releases_feed = Inr [rel_alpha, rel_stable_new]\<rparr>"

text \<open>A release with two bundles for \<open>esp32s3\<close> of sizes 100 and 500.\<close>

definition asset_small :: asset where
  "asset_small =
     \<lparr>a_name = ''firmware-esp32s3-v2.7.zip'', a_size = 100,
      a_browser_download_url = ''https://example.invalid/firmware-esp32s3-v2.7.zip''\<rparr>"

definition asset_debug :: asset where
  "asset_debug =
     \<lparr>a_name = ''firmware-esp32s3-v2.7-debug.zip'', a_size = 500,
      a_browser_download_url = ''https://example.invalid/firmware-esp32s3-v2.7-debug.zip''\<rparr>"

definition example_release :: release where
  "example_release =
     \<lparr>r_tag_name = Some ''v2.7'', r_prerelease = False, r_draft = False,
      r_created_at = Some ''2025-08-02T10:00:00Z'', r_published_at = None,
      r_assets = [asset_small, asset_debug]\<rparr>"

text \<open>A release whose two largest \<open>esp32s3\<close> bundles have the same size.\<close>

definition asset_full :: asset where
  "asset_full =
     \<lparr>a_name = ''firmware-esp32s3-v2.7-full.zip'', a_size = 500,
      a_browser_download_url = ''https://example.invalid/firmware-esp32s3-v2.7-full.zip''\<rparr>"

definition tie_release :: release where
  "tie_release =
     \<lparr>r_tag_name = Some ''v2.7'', r_prerelease = False, r_draft = False,
      r_created_at = Some ''2025-08-02T10:00:00Z'', r_published_at = None,
      r_assets = [asset_small, asset_debug, asset_full]\<rparr>"

text \<open>A flashing script whose change-mode invocation exits with 5.\<close>

definition exec_prepare_fails :: executor where
  "exec_prepare_fails env history cmd = (if ''--change-mode'' \<in> set cmd then 5 else 0)"

definition fresh_world :: world where
  "fresh_world = \<lparr>stdout = [], stderr = [], executed = []\<rparr>"

text \<open>Extracted bundles, as lists of image paths.\<close>

definition bundle_exact :: "path list" where
  "bundle_exact =
     [[''firmware-esp32s3-2.7.11'', ''firmware-heltec-v3-2.7.11-update.bin''],
      [''firmware-esp32s3-2.7.11'', ''firmware-tlora-t3s3-v1-2.7.11-update.bin'']]"

definition bundle_other_version :: "path list" where
  "bundle_other_version =
     [[''firmware-esp32s3-2.7.11'', ''firmware-heltec-v3-2.7.10-update.bin''],
      [''firmware-esp32s3-2.7.11'', ''firmware-tlora-t3s3-v1-2.7.10-update.bin'']]"

definition bundle_variants :: "path list" where
  "bundle_variants =
     [[''firmware-esp32s3-2.7.11'', ''firmware-tlora-t3s3-v1-2.6.11-tft-update.bin''],
      [''firmware-esp32s3-2.7.11'', ''firmware-tlora-t3s3-v1-2.7.11-oled-update.bin''],
      [''firmware-esp32s3-2.7.11'', ''firmware-tlora-t3s3-v1-2.7.11-tft-update.bin'']]"

definition bundle_unmarked :: "path list" where
  "bundle_unmarked =
     [[''firmware-esp32s3-2.7.11'', ''firmware-tlora-t3s3-v1-oled-update.bin''],
      [''firmware-esp32s3-2.7.11'', ''firmware-tlora-t3s3-v1-tft-update.bin'']]"

definition bundle_empty_version :: "path list" where
  "bundle_empty_version =
     [[''firmware-esp32s3'', ''firmware-tlora-t3s3-v1--update.bin''],
      [''firmware-esp32s3'', ''firmware-tlora-t3s3-v1-2.7.11-update.bin'']]"

text \<open>An extracted bundle without any image.\<close>

definition tree_without_images :: "path list" where
  "tree_without_images = [[''device-update.sh''], [''docs'', ''README.md'']]"

section \<open>What the patterns match\<close>

lemma equals_ci_length: "equals_ci a b \<Longrightarrow> length a = length b"
  unfolding equals_ci_def by (metis length_map)

lemma match_literal_eq:
  "match_literal l s =
     (if length l \<le> length s \<and> equals_ci (take (length l) s) l
      then Some (drop (length l) s) else None)"
  by (induction l s rule: match_literal.induct) (auto simp: equals_ci_def)

lemma match_literal_Some_iff:
  "match_literal l s = Some t \<longleftrightarrow> (\<exists>u. s = u @ t \<and> equals_ci u l)"
proof
  assume "match_literal l s = Some t"
  then have "length l \<le> length s" "equals_ci (take (length l) s) l" "t = drop (length l) s"
    by (auto simp: match_literal_eq split: if_splits)
  then show "\<exists>u. s = u @ t \<and> equals_ci u l"
    by (intro exI[of _ "take (length l) s"]) simp
next
  assume "\<exists>u. s = u @ t \<and> equals_ci u l"
  then obtain u where u: "s = u @ t" "equals_ci u l" by blast
  then have "length u = length l" by (simp add: equals_ci_length)
  with u show "match_literal l s = Some t" by (simp add: match_literal_eq)
qed

lemma re_match_literal_split:
  "re_match [Lit l] s \<longleftrightarrow> (\<exists>v e. s = v @ e \<and> equals_ci v l \<and> at_end e)"
proof -
  have "re_match [Lit l] s \<longleftrightarrow> (\<exists>e. match_literal l s = Some e \<and> at_end e)"
    by (auto split: option.splits)
  then show ?thesis unfolding match_literal_Some_iff by blast
qed

text \<open>\<open>^literal$\<close>: the literal up to case, with or without one newline after it.\<close>

lemma re_match_literal_iff:
  "re_match [Lit l] s \<longleftrightarrow> equals_ci s l \<or> (\<exists>c. s = c @ [CHR 0x0A] \<and> equals_ci c l)"
  unfolding re_match_literal_split by (auto simp: at_end_def)

lemma re_match_dot_star_iff:
  "re_match [DotStar, Lit l] s \<longleftrightarrow>
     (\<exists>m v e. s = m @ v @ e \<and> CHR 0x0A \<notin> set m \<and> equals_ci v l \<and> at_end e)"
proof (induction s)
  case Nil
  have "re_match [DotStar, Lit l] [] \<longleftrightarrow> re_match [Lit l] []" by simp
  also have "\<dots> \<longleftrightarrow> (\<exists>v e. [] = v @ e \<and> equals_ci v l \<and> at_end e)"
    by (rule re_match_literal_split)
  also have "\<dots> \<longleftrightarrow>
      (\<exists>m v e. [] = m @ v @ e \<and> CHR 0x0A \<notin> set m \<and> equals_ci v l \<and> at_end e)"
    by auto
  finally show ?case .
next
  case (Cons c cs)
  note here = re_match_literal_split[of l "c # cs"]
  show ?case (is "?L \<longleftrightarrow> ?R")
  proof
    assume ?L
    then consider "re_match [Lit l] (c # cs)"
      | "c \<noteq> CHR 0x0A" "re_match [DotStar, Lit l] cs"
      by auto
    then show ?R
    proof cases
      case 1
      then obtain v e where "c # cs = v @ e" "equals_ci v l" "at_end e" using here by blast
      then show ?thesis by (intro exI[of _ "[]"] exI[of _ v] exI[of _ e]) simp
    next
      case 2
      then obtain m v e
        where "cs = m @ v @ e" "CHR 0x0A \<notin> set m" "equals_ci v l" "at_end e"
        using Cons.IH by blast
      with 2(1) show ?thesis by (intro exI[of _ "c # m"] exI[of _ v] exI[of _ e]) simp
    qed
  next
    assume ?R
    then obtain m v e
      where *: "c # cs = m @ v @ e" "CHR 0x0A \<notin> set m" "equals_ci v l" "at_end e"
      by blast
    show ?L
    proof (cases m)
      case Nil
      with * have "re_match [Lit l] (c # cs)" using here by auto
      then show ?thesis by simp
    next
      case (Cons d m')
      with * have **: "c = d" "cs = m' @ v @ e" "c \<noteq> CHR 0x0A" "CHR 0x0A \<notin> set m'"
        by auto
      with * have "re_match [DotStar, Lit l] cs" using Cons.IH by blast
      with ** show ?thesis by simp
    qed
  qed
qed

text \<open>
  \<open>^prefix.*suffix$\<close>: the prefix up to case, any text without a newline, the suffix up
  to case, and the end of the name (or one newline and the end).
\<close>

lemma re_match_prefix_any_suffix_iff:
  "re_match [Lit a, DotStar, Lit b] s \<longleftrightarrow>
     (\<exists>u m v e. s = u @ m @ v @ e \<and> equals_ci u a \<and> CHR 0x0A \<notin> set m
        \<and> equals_ci v b \<and> at_end e)"
proof -
  have "re_match [Lit a, DotStar, Lit b] s \<longleftrightarrow>
          (\<exists>t. match_literal a s = Some t \<and> re_match [DotStar, Lit b] t)"
    by (auto split: option.splits)
  also have "\<dots> \<longleftrightarrow> (\<exists>u t. s = u @ t \<and> equals_ci u a \<and> re_match [DotStar, Lit b] t)"
    by (auto simp: match_literal_Some_iff)
  also have "\<dots> \<longleftrightarrow>
      (\<exists>u m v e. s = u @ m @ v @ e \<and> equals_ci u a \<and> CHR 0x0A \<notin> set m
        \<and> equals_ci v b \<and> at_end e)"
    unfolding re_match_dot_star_iff by blast
  finally show ?thesis .
qed

text \<open>A name that ends in a newline does not end in \<open>-update.bin\<close>.\<close>

lemma newline_not_update_bin: "\<not> suffix ''-update.bin'' (c @ [CHR 0x0A])"
proof
  assume "suffix ''-update.bin'' (c @ [CHR 0x0A])"
  then obtain zs where "c @ [CHR 0x0A] = zs @ ''-update.bin''" by (auto simp: suffix_def)
  then have "last (c @ [CHR 0x0A]) = last (zs @ ''-update.bin'')" by simp
  then show False by simp
qed

section \<open>Lists: first match, and sorting in reverse\<close>

lemma find_first_split:
  assumes "x \<in> set xs" "P x"
  shows "\<exists>pre q post. xs = pre @ q # post \<and> (\<forall>r \<in> set pre. \<not> P r) \<and> P q
           \<and> List.find P xs = Some q"
  using assms
proof (induction xs)
  case Nil
  then show ?case by simp
next
  case (Cons y ys)
  show ?case
  proof (cases "P y")
    case True
    then show ?thesis by (intro exI[of _ "[]"] exI[of _ y] exI[of _ ys]) simp
  next
    case False
    with Cons.prems have "x \<in> set ys" by auto
    from Cons.IH[OF this Cons.prems(2)] obtain pre q post
      where "ys = pre @ q # post" "\<forall>r \<in> set pre. \<not> P r" "P q" "List.find P ys = Some q"
      by blast
    with False show ?thesis by (intro exI[of _ "y # pre"] exI[of _ q] exI[of _ post]) simp
  qed
qed

lemma singleton_nth_hd: "length xs = 1 \<Longrightarrow> xs ! 0 = hd xs"
  by (cases xs) auto

lemma sort_reverse_mset: "mset (sort_reverse f xs) = mset xs"
  by (simp add: sort_reverse_def)

lemma sort_reverse_set: "set (sort_reverse f xs) = set xs"
  by (simp add: sort_reverse_def)

lemma sort_reverse_length: "length (sort_reverse f xs) = length xs"
  by (simp add: sort_reverse_def)

lemma sort_reverse_sorted: "sorted_wrt (\<lambda>a b. f b \<le> f a) (sort_reverse f xs)"
proof -
  have "sorted (map f (sort_key f (rev xs)))" by (rule sorted_sort_key)
  then have "sorted_wrt (\<lambda>a b. f a \<le> f b) (sort_key f (rev xs))"
    by (simp add: sorted_map)
  then show ?thesis by (simp add: sort_reverse_def sorted_wrt_rev)
qed

text \<open>Elements with the same key keep the order they had before the sort.\<close>

lemma sort_reverse_stable:
  "filter (\<lambda>y. f y = k) (sort_reverse f xs) = filter (\<lambda>y. f y = k) xs"
proof -
  have "filter (\<lambda>y. f y = k) (sort_reverse f xs)
          = rev (filter (\<lambda>y. f y = k) (sort_key f (rev xs)))"
    by (simp add: sort_reverse_def rev_filter)
  also have "\<dots> = rev (filter (\<lambda>y. f y = k) (rev xs))"
    by (simp only: sort_key_stable)
  also have "\<dots> = filter (\<lambda>y. f y = k) xs"
    by (simp add: rev_filter)
  finally show ?thesis .
qed

text \<open>
  The element at index 0 after the sort is the first element of the original list that has
  the largest key.
\<close>

lemma sort_reverse_first:
  assumes "xs \<noteq> []"
  shows "\<exists>pre post. xs = pre @ (sort_reverse f xs ! 0) # post
           \<and> (\<forall>b \<in> set pre. f b < f (sort_reverse f xs ! 0))
           \<and> (\<forall>b \<in> set post. f b \<le> f (sort_reverse f xs ! 0))"
proof -
  from assms have "sort_reverse f xs \<noteq> []"
    using sort_reverse_length[of f xs] by auto
  then obtain a rest where S: "sort_reverse f xs = a # rest"
    by (cases "sort_reverse f xs") auto
  from sort_reverse_sorted[of f xs] S have "\<forall>b \<in> set rest. f b \<le> f a" by simp
  with S have largest: "\<forall>b \<in> set xs. f b \<le> f a"
    using sort_reverse_set[of f xs] by auto
  from sort_reverse_stable[of f "f a" xs] S
  have "filter (\<lambda>y. f y = f a) xs = a # filter (\<lambda>y. f y = f a) rest" by simp
  then obtain pre post where ps: "xs = pre @ a # post" "\<forall>u \<in> set pre. f u \<noteq> f a"
    unfolding filter_eq_Cons_iff by blast
  from ps largest have "\<forall>b \<in> set pre. f b < f a" "\<forall>b \<in> set post. f b \<le> f a"
    by (auto simp: order_less_le)
  with ps(1) S show ?thesis by auto
qed

text \<open>Without \<open>--tag\<close>, on a feed whose candidates all carry a time stamp.\<close>

lemma find_release_no_tag:
  assumes "\<not> truthy tag" and "releases_feed gh = Inr feed"
    and "candidates = filter (\<lambda>r. r_prerelease r = alpha \<and> \<not> r_draft r) feed"
    and "candidates \<noteq> []" and "\<forall>r \<in> set candidates. release_key r \<noteq> None"
  shows "find_release gh previous alpha tag =
           (if (if previous then 1 else 0) \<ge> length candidates then Inl InsufficientHistory
            else Inr (sort_reverse release_key candidates ! (if previous then 1 else 0)))"
proof -
  have c: "(if alpha then filter (\<lambda>r. r_prerelease r \<and> \<not> r_draft r) feed
            else filter (\<lambda>r. \<not> r_prerelease r \<and> \<not> r_draft r) feed) = candidates"
    unfolding assms(3) by (cases alpha) (auto intro: filter_cong)
  show ?thesis
    unfolding find_release_def Let_def
    using assms(1,2,4,5) by (simp add: c sort_reverse_length)
qed

section \<open>ImageResolver: the strict and the loose phase\<close>

text \<open>
  Claim C1, as stated, at the tag \<open>v\<close>: the expected name
  \<open>firmware-tlora-t3s3-v1--update.bin\<close> is the name of the first image of the bundle, and
  yet no image is returned. The version is empty, so the strict phase is skipped, and both
  images are loose candidates.
\<close>

theorem strict_phase_empty_version_counterexample:
  "[''firmware-esp32s3'', ''firmware-tlora-t3s3-v1--update.bin''] \<in> set bundle_empty_version
   \<and> equals_ci (name [''firmware-esp32s3'', ''firmware-tlora-t3s3-v1--update.bin''])
        (''firmware-'' @ ''tlora-t3s3-v1'' @ ''-'' @ lstrip ''v'' ''v'' @ ''-update.bin'')
   \<and> resolve_board_image bundle_empty_version ''tlora-t3s3-v1'' ''v'' = None"
  by code_simp

text \<open>
  Claim C1, amended: for every image list, board hint and release tag whose version (the tag
  without its leading \<open>v\<close> characters, all of them) is not empty, the strict phase looks
  for the name \<open>firmware-<board>-<version>-update.bin\<close>; if the name of some image
  equals it up to case, \<open>resolve_board_image\<close> returns from the strict phase, without
  entering the loose one, the first image of the list that matches the strict pattern:
  its name is the expected one up to case, or that followed by one newline, which the
  pattern's \<open>$\<close> lets through; a name that ends in \<open>-update.bin\<close>, as every
  name listed by \<open>list_update_bins\<close> does, is the expected one up to case.
\<close>

theorem strict_match_is_returned:
  fixes images :: "path list" and board tag_name :: string
  defines "version \<equiv> lstrip ''v'' tag_name"
  defines "expected \<equiv> ''firmware-'' @ board @ ''-'' @ version @ ''-update.bin''"
  assumes "version \<noteq> []" and "p \<in> set images" and "equals_ci (name p) expected"
  shows "\<exists>pre q post. images = pre @ q # post
           \<and> (\<forall>r \<in> set pre. \<not> re_match (strict_pattern board version) (name r))
           \<and> (equals_ci (name q) expected
                \<or> (\<exists>c. name q = c @ [CHR 0x0A] \<and> equals_ci c expected))
           \<and> (suffix ''-update.bin'' (name q) \<longrightarrow> equals_ci (name q) expected)
           \<and> strict_phase images board version = Some q
           \<and> resolve_board_image images board tag_name = Some q"
proof -
  let ?P = "\<lambda>p. re_match (strict_pattern board version) (name p)"
  have iff: "?P r \<longleftrightarrow> equals_ci (name r) expected
                \<or> (\<exists>c. name r = c @ [CHR 0x0A] \<and> equals_ci c expected)" for r
    unfolding strict_pattern_def expected_def by (rule re_match_literal_iff)
  from assms(5) have "?P p" by (simp add: iff)
  from find_first_split[of p images ?P, OF assms(4) this]
  obtain pre q post where *: "images = pre @ q # post" "\<forall>r \<in> set pre. \<not> ?P r" "?P q"
    "List.find ?P images = Some q" by blast
  from *(3) have q: "equals_ci (name q) expected
                \<or> (\<exists>c. name q = c @ [CHR 0x0A] \<and> equals_ci c expected)"
    by (simp only: iff)
  then have exact: "suffix ''-update.bin'' (name q) \<longrightarrow> equals_ci (name q) expected"
    using newline_not_update_bin by metis
  from *(4) assms(3) have s: "strict_phase images board version = Some q"
    by (simp add: strict_phase_def)
  then have "resolve_board_image images board tag_name = Some q"
    by (simp add: resolve_board_image_def version_def)
  with s q exact *(1,2) show ?thesis by blast
qed

theorem strict_match_is_returned_witness:
  "lstrip ''v'' ''v2.7.11'' \<noteq> []
   \<and> [''firmware-esp32s3-2.7.11'', ''firmware-tlora-t3s3-v1-2.7.11-update.bin'']
        \<in> set bundle_exact
   \<and> equals_ci (name [''firmware-esp32s3-2.7.11'', ''firmware-tlora-t3s3-v1-2.7.11-update.bin''])
        (''firmware-'' @ ''tlora-t3s3-v1'' @ ''-'' @ lstrip ''v'' ''v2.7.11'' @ ''-update.bin'')
   \<and> (\<exists>pre q post. bundle_exact = pre @ q # post
        \<and> suffix ''-update.bin'' (name q)
        \<and> equals_ci (name q)
            (''firmware-'' @ ''tlora-t3s3-v1'' @ ''-'' @ lstrip ''v'' ''v2.7.11'' @ ''-update.bin'')
        \<and> strict_phase bundle_exact ''tlora-t3s3-v1'' (lstrip ''v'' ''v2.7.11'') = Some q
        \<and> resolve_board_image bundle_exact ''tlora-t3s3-v1'' ''v2.7.11'' = Some q)"
proof -
  have h1: "lstrip ''v'' ''v2.7.11'' \<noteq> []" by code_simp
  have h2: "[''firmware-esp32s3-2.7.11'', ''firmware-tlora-t3s3-v1-2.7.11-update.bin'']
        \<in> set bundle_exact" by code_simp
  have h3: "equals_ci
        (name [''firmware-esp32s3-2.7.11'', ''firmware-tlora-t3s3-v1-2.7.11-update.bin''])
        (''firmware-'' @ ''tlora-t3s3-v1'' @ ''-'' @ lstrip ''v'' ''v2.7.11'' @ ''-update.bin'')"
    by code_simp
  have all: "list_all (\<lambda>q. suffix ''-update.bin'' (name q)) bundle_exact" by code_simp
  from strict_match_is_returned[OF h1 h2 h3] obtain pre q post where
    q: "bundle_exact = pre @ q # post"
      "suffix ''-update.bin'' (name q) \<longrightarrow> equals_ci (name q)
            (''firmware-'' @ ''tlora-t3s3-v1'' @ ''-'' @ lstrip ''v'' ''v2.7.11'' @ ''-update.bin'')"
      "strict_phase bundle_exact ''tlora-t3s3-v1'' (lstrip ''v'' ''v2.7.11'') = Some q"
      "resolve_board_image bundle_exact ''tlora-t3s3-v1'' ''v2.7.11'' = Some q"
    by blast
  from q(1) have "q \<in> set bundle_exact" by (metis in_set_conv_decomp)
  with all have "suffix ''-update.bin'' (name q)" by (simp only: list_all_iff)
  with q h1 h2 h3 show ?thesis by blast
qed

text \<open>
  Claim C2: when the strict phase finds no match, the candidates are the images whose name
  matches \<open>^firmware-<board>-.*-update\.bin$\<close> up to case. A single candidate is
  returned; among several, with a version that is not empty, the first one whose name
  contains the version is returned; in every other case the result is \<open>None\<close>, the
  ambiguous result.
\<close>

theorem loose_phase_rules:
  fixes images :: "path list" and board tag_name :: string
  defines "version \<equiv> lstrip ''v'' tag_name"
  defines "candidates \<equiv> filter (\<lambda>p. re_match (loose_pattern board) (name p)) images"
  assumes "strict_phase images board version = None"
  shows "(length candidates = 1 \<longrightarrow>
            resolve_board_image images board tag_name = Some (hd candidates))
       \<and> (length candidates > 1 \<and> version \<noteq> [] \<longrightarrow>
            resolve_board_image images board tag_name
              = List.find (\<lambda>p. sublist version (name p)) candidates)
       \<and> (length candidates \<noteq> 1
            \<and> \<not> (length candidates > 1 \<and> version \<noteq> []
                   \<and> (\<exists>p \<in> set candidates. sublist version (name p))) \<longrightarrow>
            resolve_board_image images board tag_name = None)
       \<and> (\<forall>p. p \<in> set candidates \<longleftrightarrow>
            p \<in> set images
            \<and> (\<exists>u m v e. name p = u @ m @ v @ e \<and> equals_ci u (''firmware-'' @ board @ ''-'')
                  \<and> CHR 0x0A \<notin> set m \<and> equals_ci v ''-update.bin'' \<and> at_end e))"
proof -
  have res: "resolve_board_image images board tag_name = loose_phase images board version"
    using assms(3) by (simp add: resolve_board_image_def version_def)
  have rules: "(length candidates = 1 \<longrightarrow> loose_phase images board version = Some (hd candidates))
       \<and> (length candidates > 1 \<and> version \<noteq> [] \<longrightarrow>
            loose_phase images board version
              = List.find (\<lambda>p. sublist version (name p)) candidates)
       \<and> (length candidates \<noteq> 1
            \<and> \<not> (length candidates > 1 \<and> version \<noteq> []
                   \<and> (\<exists>p \<in> set candidates. sublist version (name p))) \<longrightarrow>
            loose_phase images board version = None)"
    unfolding loose_phase_def candidates_def[symmetric] Let_def
    using singleton_nth_hd[of candidates] by (auto simp: find_None_iff)
  have cands: "\<forall>p. p \<in> set candidates \<longleftrightarrow>
            p \<in> set images
            \<and> (\<exists>u m v e. name p = u @ m @ v @ e \<and> equals_ci u (''firmware-'' @ board @ ''-'')
                  \<and> CHR 0x0A \<notin> set m \<and> equals_ci v ''-update.bin'' \<and> at_end e)"
    unfolding candidates_def loose_pattern_def
    by (simp only: set_filter mem_Collect_eq re_match_prefix_any_suffix_iff) simp
  show ?thesis
    unfolding res
    by (rule conjI[OF rules[THEN conjunct1]
          conjI[OF rules[THEN conjunct2, THEN conjunct1]
            conjI[OF rules[THEN conjunct2, THEN conjunct2] cands]]])
qed

theorem loose_phase_rules_witness:
  "strict_phase bundle_other_version ''tlora-t3s3-v1'' (lstrip ''v'' ''v2.7.11'') = None
   \<and> resolve_board_image bundle_other_version ''tlora-t3s3-v1'' ''v2.7.11''
       = Some (hd (filter (\<lambda>p. re_match (loose_pattern ''tlora-t3s3-v1'') (name p))
                     bundle_other_version))
   \<and> strict_phase bundle_variants ''tlora-t3s3-v1'' (lstrip ''v'' ''v2.7.11'') = None
   \<and> resolve_board_image bundle_variants ''tlora-t3s3-v1'' ''v2.7.11''
       = List.find (\<lambda>p. sublist (lstrip ''v'' ''v2.7.11'') (name p))
           (filter (\<lambda>p. re_match (loose_pattern ''tlora-t3s3-v1'') (name p)) bundle_variants)
   \<and> strict_phase bundle_unmarked ''tlora-t3s3-v1'' (lstrip ''v'' ''v2.7.11'') = None
   \<and> resolve_board_image bundle_unmarked ''tlora-t3s3-v1'' ''v2.7.11'' = None"
proof -
  have s1: "strict_phase bundle_other_version ''tlora-t3s3-v1'' (lstrip ''v'' ''v2.7.11'') = None"
    by code_simp
  have c1: "length (filter (\<lambda>p. re_match (loose_pattern ''tlora-t3s3-v1'') (name p))
                     bundle_other_version) = 1"
    by code_simp
  have s2: "strict_phase bundle_variants ''tlora-t3s3-v1'' (lstrip ''v'' ''v2.7.11'') = None"
    by code_simp
  have c2: "length (filter (\<lambda>p. re_match (loose_pattern ''tlora-t3s3-v1'') (name p))
                     bundle_variants) > 1 \<and> lstrip ''v'' ''v2.7.11'' \<noteq> []"
    by code_simp
  have s3: "strict_phase bundle_unmarked ''tlora-t3s3-v1'' (lstrip ''v'' ''v2.7.11'') = None"
    by code_simp
  have c3: "length (filter (\<lambda>p. re_match (loose_pattern ''tlora-t3s3-v1'') (name p))
                     bundle_unmarked) \<noteq> 1
            \<and> \<not> (length (filter (\<lambda>p. re_match (loose_pattern ''tlora-t3s3-v1'') (name p))
                     bundle_unmarked) > 1 \<and> lstrip ''v'' ''v2.7.11'' \<noteq> []
                   \<and> (\<exists>p \<in> set (filter (\<lambda>p. re_match (loose_pattern ''tlora-t3s3-v1'') (name p))
                     bundle_unmarked). sublist (lstrip ''v'' ''v2.7.11'') (name p)))"
    by code_simp
  from loose_phase_rules[OF s1] c1 loose_phase_rules[OF s2] c2 loose_phase_rules[OF s3] c3
    s1 s2 s3
  show ?thesis by blast
qed

text \<open>
  Claim C10: when the release tag is empty or made of \<open>v\<close> characters only, the version
  is empty, the strict phase is skipped and the result is that of the loose phase, where
  the version cannot break a tie: a single loose candidate is returned, and any other
  number of candidates gives \<open>None\<close>, the ambiguous result.
\<close>

theorem empty_version_skips_strict:
  fixes images :: "path list" and board tag_name :: string
  defines "candidates \<equiv> filter (\<lambda>p. re_match (loose_pattern board) (name p)) images"
  assumes "set tag_name \<subseteq> {CHR ''v''}"
  shows "lstrip ''v'' tag_name = []
       \<and> strict_phase images board (lstrip ''v'' tag_name) = None
       \<and> resolve_board_image images board tag_name = loose_phase images board []
       \<and> resolve_board_image images board tag_name
           = (if length candidates = 1 then Some (hd candidates) else None)"
proof -
  from assms(2) have v: "lstrip ''v'' tag_name = []"
    by (auto simp: lstrip_def dropWhile_eq_Nil_conv)
  have s: "strict_phase images board [] = None" by (simp add: strict_phase_def)
  have r: "resolve_board_image images board tag_name = loose_phase images board []"
    by (simp add: resolve_board_image_def v s)
  have "loose_phase images board []
          = (if length candidates = 1 then Some (hd candidates) else None)"
    unfolding loose_phase_def candidates_def[symmetric] Let_def
    using singleton_nth_hd[of candidates] by simp
  with v s r show ?thesis by simp
qed

theorem empty_version_skips_strict_witness:
  "set ''vv'' \<subseteq> {CHR ''v''}
   \<and> length (filter (\<lambda>p. re_match (loose_pattern ''tlora-t3s3-v1'') (name p))
        bundle_empty_version) = 2
   \<and> strict_phase bundle_empty_version ''tlora-t3s3-v1'' (lstrip ''v'' ''vv'') = None
   \<and> resolve_board_image bundle_empty_version ''tlora-t3s3-v1'' ''vv'' = None"
proof -
  have h: "set ''vv'' \<subseteq> {CHR ''v''}" by code_simp
  have c: "length (filter (\<lambda>p. re_match (loose_pattern ''tlora-t3s3-v1'') (name p))
        bundle_empty_version) = 2" by code_simp
  note t = empty_version_skips_strict[OF h, of bundle_empty_version "''tlora-t3s3-v1''"]
  from t have s: "strict_phase bundle_empty_version ''tlora-t3s3-v1'' (lstrip ''v'' ''vv'') = None"
    by blast
  from t have "resolve_board_image bundle_empty_version ''tlora-t3s3-v1'' ''vv''
      = (if length (filter (\<lambda>p. re_match (loose_pattern ''tlora-t3s3-v1'') (name p))
                bundle_empty_version) = 1
         then Some (hd (filter (\<lambda>p. re_match (loose_pattern ''tlora-t3s3-v1'') (name p))
                bundle_empty_version))
         else None)"
    by blast
  then have "resolve_board_image bundle_empty_version ''tlora-t3s3-v1'' ''vv'' = None"
    unfolding c by simp
  with h c s show ?thesis by blast
qed

text \<open>
  Claim C7: when the bundle holds no \<open>*-update.bin\<close> image, \<open>list_update_bins\<close> fails
  with \<open>NoImagesFound\<close>, and so does the image selection of \<open>main\<close> before the board
  is looked at, whatever the board hint and the release tag are.
\<close>

theorem no_images_is_hard_failure:
  assumes "\<forall>p \<in> set tree. \<not> suffix ''-update.bin'' (name p)"
  shows "list_update_bins tree = Inl NoImagesFound
       \<and> main_locate_image tree board tag_name = Inl NoImagesFound"
proof -
  from assms have "filter (\<lambda>p. suffix ''-update.bin'' (name p)) tree = []"
    by (simp add: filter_empty_conv)
  then have "list_update_bins tree = Inl NoImagesFound"
    by (simp add: list_update_bins_def)
  then show ?thesis by (simp add: main_locate_image_def)
qed

theorem no_images_is_hard_failure_witness:
  "filter (\<lambda>p. suffix ''-update.bin'' (name p)) tree_without_images = []
   \<and> list_update_bins tree_without_images = Inl NoImagesFound
   \<and> main_locate_image tree_without_images (Some ''x'') (Some ''v1'') = Inl NoImagesFound"
proof -
  have e: "filter (\<lambda>p. suffix ''-update.bin'' (name p)) tree_without_images = []"
    by code_simp
  then have h: "\<forall>p \<in> set tree_without_images. \<not> suffix ''-update.bin'' (name p)"
    by (simp only: filter_empty_conv)
  from no_images_is_hard_failure[OF h, of "Some ''x''" "Some ''v1''"] e
  show ?thesis by blast
qed

section \<open>ReleaseCatalog: channel, order and index\<close>

text \<open>
  Claim C3, as stated, with an explicit tag: a stable release is asked for (\<open>alpha\<close> is
  false) with \<open>--tag v2.7.11.ee68575\<close>, and the release returned is a prerelease. The
  release named by the tag is returned as the provider has it.
\<close>

theorem find_release_explicit_tag_counterexample:
  "find_release example_github False False (Some ''v2.7.11.ee68575'') = Inr rel_alpha
   \<and> r_prerelease rel_alpha"
  by code_simp

text \<open>
  Claim C3, amended: when no explicit tag is given (it is absent or empty), for every feed
  and every choice of channel and of \<open>previous\<close>, a release returned by
  \<open>find_release\<close> is an entry of the feed that is not a draft and belongs to the channel
  asked for (a prerelease for alpha, not a prerelease for stable). With an explicit tag the
  result is what the provider answers for that tag, unfiltered.
\<close>

theorem find_release_channel_without_tag:
  "(\<not> truthy tag \<and> find_release gh previous alpha tag = Inr r \<longrightarrow>
      \<not> r_draft r \<and> r_prerelease r = alpha
      \<and> (\<exists>feed. releases_feed gh = Inr feed \<and> r \<in> set feed))
   \<and> (truthy tag \<longrightarrow> find_release gh previous alpha tag = release_by_tag gh (the tag))"
proof (rule conjI; rule impI)
  assume a: "\<not> truthy tag \<and> find_release gh previous alpha tag = Inr r"
  then obtain feed where feed: "releases_feed gh = Inr feed"
    by (auto simp: find_release_def split: sum.splits)
  define candidates where "candidates =
     (if alpha then filter (\<lambda>r. r_prerelease r \<and> \<not> r_draft r) feed
      else filter (\<lambda>r. \<not> r_prerelease r \<and> \<not> r_draft r) feed)"
  let ?S = "sort_reverse release_key candidates"
  let ?i = "if previous then 1 else 0 :: nat"
  from a feed have "?i < length ?S" "r = ?S ! ?i"
    by (auto simp: find_release_def Let_def candidates_def[symmetric] split: if_splits)
  then have "r \<in> set ?S" by (metis nth_mem)
  then have "r \<in> set candidates" by (simp add: sort_reverse_set)
  then have "\<not> r_draft r \<and> r_prerelease r = alpha \<and> r \<in> set feed"
    by (auto simp: candidates_def split: if_splits)
  with feed show "\<not> r_draft r \<and> r_prerelease r = alpha
      \<and> (\<exists>feed. releases_feed gh = Inr feed \<and> r \<in> set feed)" by blast
next
  assume "truthy tag"
  then show "find_release gh previous alpha tag = release_by_tag gh (the tag)"
    by (simp add: find_release_def)
qed

theorem find_release_channel_without_tag_witness:
  "\<not> truthy None
   \<and> find_release example_github False False None = Inr rel_stable_new
   \<and> \<not> r_draft rel_stable_new \<and> r_prerelease rel_stable_new = False
   \<and> find_release example_github True True None = Inl InsufficientHistory
   \<and> truthy (Some ''v2.7.11.ee68575'')
   \<and> find_release example_github False False (Some ''v2.7.11.ee68575'')
       = release_by_tag example_github (the (Some ''v2.7.11.ee68575''))"
proof -
  have h1: "\<not> truthy None" by code_simp
  have h2: "find_release example_github False False None = Inr rel_stable_new" by code_simp
  have h3: "find_release example_github True True None = Inl InsufficientHistory" by code_simp
  have h4: "truthy (Some ''v2.7.11.ee68575'')" by code_simp
  note t1 = find_release_channel_without_tag[of None example_github False False rel_stable_new]
  note t2 = find_release_channel_without_tag[of "Some ''v2.7.11.ee68575''" example_github False False]
  from t1 h1 h2 have "\<not> r_draft rel_stable_new \<and> r_prerelease rel_stable_new = False" by blast
  moreover from t2 h4 have "find_release example_github False False (Some ''v2.7.11.ee68575'')
       = release_by_tag example_github (the (Some ''v2.7.11.ee68575''))" by blast
  ultimately show ?thesis using h1 h2 h3 h4 by blast
qed

text \<open>
  Claim C4: without an explicit tag, when the candidates (the releases of the feed in the
  channel that are not drafts) are not empty and each carries a time stamp,
  \<open>find_release\<close> works on the list that holds the same candidates sorted by time
  stamp, latest first, with candidates of equal time stamp in their order in the feed. It
  returns the entry at index 0, or at index 1 when \<open>previous\<close> is set, and fails with
  \<open>InsufficientHistory\<close> when that index is not below the number of candidates; so it
  does for \<open>previous\<close> with a single candidate.
\<close>

theorem find_release_sorted_index:
  fixes gh :: github and previous alpha :: bool and tag :: "string option"
  defines "idx \<equiv> (if previous then 1 else 0 :: nat)"
  assumes "\<not> truthy tag" and "releases_feed gh = Inr feed"
    and "candidates = filter (\<lambda>r. r_prerelease r = alpha \<and> \<not> r_draft r) feed"
    and "candidates \<noteq> []" and "\<forall>r \<in> set candidates. release_key r \<noteq> None"
  shows "\<exists>sorted_candidates.
           mset sorted_candidates = mset candidates
         \<and> sorted_wrt (\<lambda>a b. release_key a \<ge> release_key b) sorted_candidates
         \<and> (\<forall>k. filter (\<lambda>r. release_key r = k) sorted_candidates
                 = filter (\<lambda>r. release_key r = k) candidates)
         \<and> find_release gh previous alpha tag
             = (if idx \<ge> length sorted_candidates then Inl InsufficientHistory
                else Inr (sorted_candidates ! idx))
         \<and> (previous \<and> length candidates = 1 \<longrightarrow>
              find_release gh previous alpha tag = Inl InsufficientHistory)"
proof -
  let ?S = "sort_reverse release_key candidates"
  note r = find_release_no_tag[OF assms(2-6), of previous]
  have "find_release gh previous alpha tag
             = (if idx \<ge> length ?S then Inl InsufficientHistory else Inr (?S ! idx))"
    unfolding r idx_def by (simp add: sort_reverse_length)
  moreover have "previous \<and> length candidates = 1 \<longrightarrow>
              find_release gh previous alpha tag = Inl InsufficientHistory"
    unfolding r by simp
  ultimately show ?thesis
    using sort_reverse_mset[of release_key candidates]
      sort_reverse_sorted[of release_key candidates]
      sort_reverse_stable[of release_key _ candidates]
    by blast
qed

theorem find_release_sorted_index_witness:
  "(\<exists>S. mset S = mset [rel_stable_old, rel_stable_new]
       \<and> sorted_wrt (\<lambda>a b. release_key a \<ge> release_key b) S
       \<and> (\<forall>k. filter (\<lambda>r. release_key r = k) S
                 = filter (\<lambda>r. release_key r = k) [rel_stable_old, rel_stable_new])
       \<and> find_release example_github True False None
           = (if 1 \<ge> length S then Inl InsufficientHistory else Inr (S ! 1)))
   \<and> find_release example_github True False None = Inr rel_stable_old
   \<and> find_release single_github True False None = Inl InsufficientHistory"
proof -
  have h1: "\<not> truthy None" by code_simp
  have h2: "releases_feed example_github
              = Inr [rel_stable_old, rel_alpha, rel_draft, rel_stable_new]" by code_simp
  have h3: "[rel_stable_old, rel_stable_new]
              = filter (\<lambda>r. r_prerelease r = False \<and> \<not> r_draft r)
                  [rel_stable_old, rel_alpha, rel_draft, rel_stable_new]" by code_simp
  have h4: "[rel_stable_old, rel_stable_new] \<noteq> []" by simp
  have h5: "\<forall>r \<in> set [rel_stable_old, rel_stable_new]. release_key r \<noteq> None" by code_simp
  have g2: "releases_feed single_github = Inr [rel_alpha, rel_stable_new]" by code_simp
  have g3: "[rel_stable_new]
              = filter (\<lambda>r. r_prerelease r = False \<and> \<not> r_draft r) [rel_alpha, rel_stable_new]"
    by code_simp
  have g4: "[rel_stable_new] \<noteq> []" by simp
  have g5: "\<forall>r \<in> set [rel_stable_new]. release_key r \<noteq> None" by code_simp
  have e: "find_release example_github True False None = Inr rel_stable_old" by code_simp
  from find_release_sorted_index[OF h1 h2 h3 h4 h5, of True]
  have a: "\<exists>S. mset S = mset [rel_stable_old, rel_stable_new]
       \<and> sorted_wrt (\<lambda>a b. release_key a \<ge> release_key b) S
       \<and> (\<forall>k. filter (\<lambda>r. release_key r = k) S
                 = filter (\<lambda>r. release_key r = k) [rel_stable_old, rel_stable_new])
       \<and> find_release example_github True False None
           = (if 1 \<ge> length S then Inl InsufficientHistory else Inr (S ! 1))"
    by (simp only: if_True) blast
  from find_release_sorted_index[OF h1 g2 g3 g4 g5, of True]
  have b: "find_release single_github True False None = Inl InsufficientHistory"
    by auto
  from a e b show ?thesis by blast
qed

section \<open>AssetSelector: the largest matching bundle\<close>

text \<open>
  Claim C5: \<open>pick_asset_for_platform\<close> keeps exactly the assets of the release whose
  name matches \<open>^firmware-<platform>-.*\.zip$\<close> up to case, fails with
  \<open>NoAssetForPlatform\<close> when none matches, and otherwise returns a matching asset
  whose size no other matching asset exceeds. On the assets \<open>firmware-esp32s3-v2.7.zip\<close>
  of size 100 and \<open>firmware-esp32s3-v2.7-debug.zip\<close> of size 500 and the platform
  \<open>esp32s3\<close> it returns the asset of size 500.
\<close>

theorem pick_asset_largest_match:
  fixes rel :: release and platform :: string
  defines "matches \<equiv> filter (\<lambda>a. re_match (asset_pattern platform) (a_name a)) (r_assets rel)"
  shows "(\<forall>a. a \<in> set matches \<longleftrightarrow>
            a \<in> set (r_assets rel)
            \<and> (\<exists>u m v e. a_name a = u @ m @ v @ e
                  \<and> equals_ci u (''firmware-'' @ platform @ ''-'')
                  \<and> CHR 0x0A \<notin> set m \<and> equals_ci v ''.zip'' \<and> at_end e))
       \<and> (matches = [] \<longrightarrow> pick_asset_for_platform rel platform = Inl NoAssetForPlatform)
       \<and> (matches \<noteq> [] \<longrightarrow>
            (\<exists>a. pick_asset_for_platform rel platform = Inr a \<and> a \<in> set matches
                 \<and> (\<forall>b \<in> set matches. a_size b \<le> a_size a)))
       \<and> r_assets example_release = [asset_small, asset_debug]
       \<and> a_name asset_small = ''firmware-esp32s3-v2.7.zip'' \<and> a_size asset_small = 100
       \<and> a_name asset_debug = ''firmware-esp32s3-v2.7-debug.zip'' \<and> a_size asset_debug = 500
       \<and> pick_asset_for_platform example_release ''esp32s3'' = Inr asset_debug"
proof -
  have exactly: "\<forall>a. a \<in> set matches \<longleftrightarrow>
            a \<in> set (r_assets rel)
            \<and> (\<exists>u m v e. a_name a = u @ m @ v @ e
                  \<and> equals_ci u (''firmware-'' @ platform @ ''-'')
                  \<and> CHR 0x0A \<notin> set m \<and> equals_ci v ''.zip'' \<and> at_end e)"
    unfolding matches_def asset_pattern_def
    by (simp only: set_filter mem_Collect_eq re_match_prefix_any_suffix_iff) simp
  have none: "matches = [] \<longrightarrow> pick_asset_for_platform rel platform = Inl NoAssetForPlatform"
    by (simp add: pick_asset_for_platform_def matches_def)
  have some: "matches \<noteq> [] \<longrightarrow>
            (\<exists>a. pick_asset_for_platform rel platform = Inr a \<and> a \<in> set matches
                 \<and> (\<forall>b \<in> set matches. a_size b \<le> a_size a))"
  proof
    assume ne: "matches \<noteq> []"
    let ?a = "sort_reverse a_size matches ! 0"
    from ne have pick: "pick_asset_for_platform rel platform = Inr ?a"
      by (simp add: pick_asset_for_platform_def matches_def)
    from sort_reverse_first[OF ne, of a_size] obtain pre post where
      "matches = pre @ ?a # post" "\<forall>b \<in> set pre. a_size b < a_size ?a"
      "\<forall>b \<in> set post. a_size b \<le> a_size ?a" by blast
    then have "?a \<in> set matches" "\<forall>b \<in> set matches. a_size b \<le> a_size ?a"
      by (metis in_set_conv_decomp,
          metis Un_iff order_less_imp_le order_refl set_ConsD set_append)
    with pick show "\<exists>a. pick_asset_for_platform rel platform = Inr a \<and> a \<in> set matches
                 \<and> (\<forall>b \<in> set matches. a_size b \<le> a_size a)" by blast
  qed
  have example: "r_assets example_release = [asset_small, asset_debug]
       \<and> a_name asset_small = ''firmware-esp32s3-v2.7.zip'' \<and> a_size asset_small = 100
       \<and> a_name asset_debug = ''firmware-esp32s3-v2.7-debug.zip'' \<and> a_size asset_debug = 500
       \<and> pick_asset_for_platform example_release ''esp32s3'' = Inr asset_debug"
    by code_simp
  show ?thesis
    by (rule conjI[OF exactly conjI[OF none conjI[OF some example]]])
qed

theorem pick_asset_largest_match_witness:
  "filter (\<lambda>a. re_match (asset_pattern ''esp32s3'') (a_name a)) (r_assets example_release) \<noteq> []
   \<and> (\<exists>a. pick_asset_for_platform example_release ''esp32s3'' = Inr a
         \<and> (\<forall>b \<in> set (filter (\<lambda>a. re_match (asset_pattern ''esp32s3'') (a_name a))
                         (r_assets example_release)). a_size b \<le> a_size a))
   \<and> filter (\<lambda>a. re_match (asset_pattern ''nrf52'') (a_name a)) (r_assets example_release) = []
   \<and> pick_asset_for_platform example_release ''nrf52'' = Inl NoAssetForPlatform"
proof -
  have h1: "filter (\<lambda>a. re_match (asset_pattern ''esp32s3'') (a_name a))
              (r_assets example_release) \<noteq> []" by code_simp
  have h2: "filter (\<lambda>a. re_match (asset_pattern ''nrf52'') (a_name a))
              (r_assets example_release) = []" by code_simp
  from pick_asset_largest_match[where rel = example_release and platform = "''esp32s3''"] h1
    pick_asset_largest_match[where rel = example_release and platform = "''nrf52''"] h2
  show ?thesis by blast
qed

text \<open>
  Claim C9: the asset that \<open>pick_asset_for_platform\<close> returns is the earliest of the
  largest matching assets in the order of the release: every matching asset before it is
  strictly smaller, and none after it is larger.
\<close>

theorem pick_asset_tie_earliest:
  fixes rel :: release and platform :: string
  defines "matches \<equiv> filter (\<lambda>a. re_match (asset_pattern platform) (a_name a)) (r_assets rel)"
  assumes "pick_asset_for_platform rel platform = Inr a"
  shows "\<exists>pre post. matches = pre @ a # post
           \<and> (\<forall>b \<in> set pre. a_size b < a_size a)
           \<and> (\<forall>b \<in> set post. a_size b \<le> a_size a)"
proof -
  from assms(2) have ne: "matches \<noteq> []" and a: "a = sort_reverse a_size matches ! 0"
    by (auto simp: pick_asset_for_platform_def matches_def Let_def split: if_splits)
  from sort_reverse_first[OF ne, of a_size] show ?thesis unfolding a .
qed

theorem pick_asset_tie_earliest_witness:
  "pick_asset_for_platform tie_release ''esp32s3'' = Inr asset_debug
   \<and> a_size asset_debug = a_size asset_full
   \<and> filter (\<lambda>a. re_match (asset_pattern ''esp32s3'') (a_name a)) (r_assets tie_release)
       = [asset_small, asset_debug, asset_full]
   \<and> (\<exists>pre post.
        filter (\<lambda>a. re_match (asset_pattern ''esp32s3'') (a_name a)) (r_assets tie_release)
          = pre @ asset_debug # post
        \<and> (\<forall>b \<in> set pre. a_size b < a_size asset_debug)
        \<and> (\<forall>b \<in> set post. a_size b \<le> a_size asset_debug))"
proof -
  have h: "pick_asset_for_platform tie_release ''esp32s3'' = Inr asset_debug" by code_simp
  have e: "a_size asset_debug = a_size asset_full" by code_simp
  have m: "filter (\<lambda>a. re_match (asset_pattern ''esp32s3'') (a_name a)) (r_assets tie_release)
       = [asset_small, asset_debug, asset_full]" by code_simp
  from pick_asset_tie_earliest[OF h] h e m show ?thesis by blast
qed

section \<open>FlashOrchestrator: failed prepare step and dry run\<close>

text \<open>
  Claim C6: when the change-mode step is requested and its invocation returns a status
  \<open>N\<close> other than 0, the outcome is \<open>Failed N\<close> (\<open>sys.exit(N)\<close>), the only
  command executed by the run is the change-mode command, and the flash command is not
  among the commands executed by the run.
\<close>

theorem failed_prepare_aborts:
  assumes "change_mode"
    and "fst (run exec (prepare_cmd device_update chosen_path) env dry_run verbose
           (w\<lparr>stdout := stdout w @ [''Step 1/2: Preparing flash (change mode)...'']\<rparr>)) = N"
    and "N \<noteq> 0"
  shows "fst (main_steps exec env device_update chosen_path change_mode dry_run verbose w)
           = Failed N
    \<and> executed (snd (main_steps exec env device_update chosen_path change_mode dry_run verbose w))
        = executed w @ [prepare_cmd device_update chosen_path]
    \<and> flash_cmd device_update chosen_path
        \<notin> set (drop (length (executed w))
             (executed (snd (main_steps exec env device_update chosen_path change_mode dry_run
                               verbose w))))"
  using assms
  by (auto simp: main_steps_def run_def Let_def prepare_cmd_def flash_cmd_def split: if_splits)

theorem failed_prepare_aborts_witness:
  "fst (run exec_prepare_fails (prepare_cmd ''./device-update.sh'' ''fw-update.bin'') Map.empty
          False False
          (fresh_world\<lparr>stdout := stdout fresh_world
                          @ [''Step 1/2: Preparing flash (change mode)...'']\<rparr>)) = 5
   \<and> fst (main_steps exec_prepare_fails Map.empty ''./device-update.sh'' ''fw-update.bin''
            True False False fresh_world) = Failed 5
   \<and> executed (snd (main_steps exec_prepare_fails Map.empty ''./device-update.sh''
            ''fw-update.bin'' True False False fresh_world))
       = executed fresh_world @ [prepare_cmd ''./device-update.sh'' ''fw-update.bin'']"
proof -
  have h: "fst (run exec_prepare_fails (prepare_cmd ''./device-update.sh'' ''fw-update.bin'')
          Map.empty False False
          (fresh_world\<lparr>stdout := stdout fresh_world
                          @ [''Step 1/2: Preparing flash (change mode)...'']\<rparr>)) = 5"
    by code_simp
  have n: "(5::int) \<noteq> 0" by simp
  from failed_prepare_aborts[where change_mode = True, OF TrueI h n] h show ?thesis by blast
qed

text \<open>
  Claim C8: in a dry run every command is logged (a line \<open>+ command\<close> is printed) and
  not executed, \<open>run\<close> returns 0 for it, and the steps of \<open>main\<close> end in
  \<open>Success\<close> with nothing executed, with the flash command logged, and the
  change-mode command too when that step is requested.
\<close>

theorem dry_run_never_executes:
  "run exec cmd env True verbose w
     = (0, w\<lparr>stdout := stdout w @ [''+ '' @ join '' '' cmd]\<rparr>)
   \<and> fst (main_steps exec env device_update chosen_path change_mode True verbose w) = Success
   \<and> executed (snd (main_steps exec env device_update chosen_path change_mode True verbose w))
       = executed w
   \<and> (''+ '' @ join '' '' (flash_cmd device_update chosen_path))
        \<in> set (stdout (snd (main_steps exec env device_update chosen_path change_mode True
                               verbose w)))
   \<and> (change_mode \<longrightarrow> (''+ '' @ join '' '' (prepare_cmd device_update chosen_path))
        \<in> set (stdout (snd (main_steps exec env device_update chosen_path change_mode True
                               verbose w))))"
  by (simp add: main_steps_def main_flash_step_def run_def)

theorem dry_run_never_executes_witness:
  "fst (main_steps exec_prepare_fails Map.empty ''./device-update.sh'' ''fw-update.bin''
          True True False fresh_world) = Success
   \<and> executed (snd (main_steps exec_prepare_fails Map.empty ''./device-update.sh''
          ''fw-update.bin'' True True False fresh_world)) = executed fresh_world
   \<and> (''+ '' @ join '' '' (prepare_cmd ''./device-update.sh'' ''fw-update.bin''))
        \<in> set (stdout (snd (main_steps exec_prepare_fails Map.empty ''./device-update.sh''
          ''fw-update.bin'' True True False fresh_world)))"
  using dry_run_never_executes[where exec = exec_prepare_fails and env = Map.empty
          and verbose = False and w = fresh_world and device_update = "''./device-update.sh''"
          and chosen_path = "''fw-update.bin''" and change_mode = True]
  by blast

end
